theory Spec2Isabelle
  imports Main
begin

section \<open>download\_utils.py: timecodes, download ranges and the progress hook\<close>

text \<open>
  A shallow embedding of \<^verbatim>\<open>experiments/countdown-workflow/utils/download_utils.py\<close>.
  Text is \<open>string\<close>, restricted to ASCII; Python's unbounded integers are \<open>int\<close>;
  a \<^verbatim>\<open>dict\<close> with string keys is a map \<open>string \<rightharpoonup> 'v\<close>; an exception is the
  \<open>Inl\<close> of a sum; the module-level variable is a field of \<open>module_state\<close>, which
  every function of the module takes and returns.
\<close>

subsection \<open>Exceptions\<close>

text \<open>
  All failures of the two range functions are Python \<^verbatim>\<open>ValueError\<close>s; they differ in
  the message, which is kept as the argument:
  \<^item> \<open>MustBeProvided\<close>: the explicit \<^verbatim>\<open>raise ValueError("start_time and end_time must
    be provided in ydl.params for download_ranges_callback.")\<close>;
  \<^item> \<open>InvalidLiteral s\<close>: \<^verbatim>\<open>int(s)\<close> failed, "invalid literal for int() with base 10";
  \<^item> \<open>NotEnoughValues n k\<close>: unpacking into \<open>n\<close> targets got only \<open>k\<close> values;
  \<^item> \<open>TooManyValues n\<close>: unpacking into \<open>n\<close> targets found a further value.
  A subscript \<^verbatim>\<open>d[k]\<close> on a dict without the key \<open>k\<close> raises \<^verbatim>\<open>KeyError(k)\<close>.
\<close>

datatype value_error =
    MustBeProvided
  | InvalidLiteral string
  | NotEnoughValues nat nat
  | TooManyValues nat

datatype error = ValueError value_error | KeyError string

subsection \<open>The built-ins \<^verbatim>\<open>str.split\<close> and \<^verbatim>\<open>int\<close>\<close>

text \<open>
  \<^verbatim>\<open>s.split(sep)\<close> with a one-character separator: the fields between the
  separators, empty fields kept, so the result is never empty
  (\<^verbatim>\<open>"".split(':') == ['']\<close>).
\<close>

fun py_split :: "string \<Rightarrow> char \<Rightarrow> string list" where
  "py_split [] sep = [[]]"
| "py_split (c # cs) sep =
     (if c = sep then [] # py_split cs sep
      else (c # hd (py_split cs sep)) # tl (py_split cs sep))"

text \<open>
  \<^verbatim>\<open>int(s)\<close> on an ASCII string, base 10: surrounding whitespace (space, \<^verbatim>\<open>\t \n \v \f \r\<close>)
  is stripped, one sign \<^verbatim>\<open>+\<close> or \<^verbatim>\<open>-\<close> may follow, then decimal digits, where single
  underscores may stand between two digits. Anything else is a \<^verbatim>\<open>ValueError\<close>, here
  \<open>None\<close>. The interpreter's configurable cap on the number of digits is not modelled.
\<close>

definition py_isspace :: "char \<Rightarrow> bool" where
  "py_isspace c = (c = CHR '' '' \<or> (9 \<le> (of_char c :: nat) \<and> (of_char c :: nat) \<le> 13))"

definition py_isdigit :: "char \<Rightarrow> bool" where
  "py_isdigit c = (48 \<le> (of_char c :: nat) \<and> (of_char c :: nat) \<le> 57)"

definition digit_val :: "char \<Rightarrow> int" where
  "digit_val c = int (of_char c :: nat) - 48"

definition py_strip :: "string \<Rightarrow> string" where
  "py_strip s = rev (dropWhile py_isspace (rev (dropWhile py_isspace s)))"

text \<open>
  The digit scan: \<open>prev_digit\<close> tells whether the character before was a digit
  (an underscore is accepted only then, and must be followed by a digit);
  \<open>acc\<close> is the value read so far.
\<close>

fun scan_digits :: "bool \<Rightarrow> int \<Rightarrow> string \<Rightarrow> int option" where
  "scan_digits prev_digit acc [] = (if prev_digit then Some acc else None)"
| "scan_digits prev_digit acc (c # cs) =
     (if py_isdigit c then scan_digits True (acc * 10 + digit_val c) cs
      else if c = CHR ''_'' \<and> prev_digit then scan_digits False acc cs
      else None)"

definition py_int :: "string \<Rightarrow> int option" where
  "py_int s =
     (case py_strip s of
        [] \<Rightarrow> None
      | c # cs \<Rightarrow>
          if c = CHR ''-'' then map_option uminus (scan_digits False 0 cs)
          else if c = CHR ''+'' then scan_digits False 0 cs
          else scan_digits False 0 (c # cs))"

text \<open>
  \<^verbatim>\<open>h, m, s = map(int, fields)\<close>. \<^verbatim>\<open>map\<close> is lazy and the unpacking draws from it:
  three values, each converted when drawn, then one more draw that must find the
  iterator exhausted. So a field that is not an integer raises at its own draw,
  a missing field raises "not enough values", and a fourth field raises "invalid
  literal" when it is not an integer and "too many values" when it is.
\<close>

definition unpack_hms :: "string list \<Rightarrow> error + int \<times> int \<times> int" where
  "unpack_hms fields =
     (case fields of
        [] \<Rightarrow> Inl (ValueError (NotEnoughValues 3 0))
      | a # fields1 \<Rightarrow>
     (case py_int a of
        None \<Rightarrow> Inl (ValueError (InvalidLiteral a))
      | Some h \<Rightarrow>
     (case fields1 of
        [] \<Rightarrow> Inl (ValueError (NotEnoughValues 3 1))
      | b # fields2 \<Rightarrow>
     (case py_int b of
        None \<Rightarrow> Inl (ValueError (InvalidLiteral b))
      | Some m \<Rightarrow>
     (case fields2 of
        [] \<Rightarrow> Inl (ValueError (NotEnoughValues 3 2))
      | c # fields3 \<Rightarrow>
     (case py_int c of
        None \<Rightarrow> Inl (ValueError (InvalidLiteral c))
      | Some s \<Rightarrow>
     (case fields3 of
        [] \<Rightarrow> Inr (h, m, s)
      | d # _ \<Rightarrow>
     (case py_int d of
        None \<Rightarrow> Inl (ValueError (InvalidLiteral d))
      | Some _ \<Rightarrow> Inl (ValueError (TooManyValues 3))))))))))"

subsection \<open>Module state\<close>

text \<open>
  \<^verbatim>\<open>_downloaded_file_path_global: Optional[str] = None\<close> is the module's only variable.
  \<open>log_records\<close> holds the messages handed to \<^verbatim>\<open>logger.info\<close>, oldest first.
\<close>

record module_state =
  downloaded_file_path_global :: "string option"
  log_records :: "string list"

definition initial_state :: module_state where
  "initial_state = \<lparr>downloaded_file_path_global = None, log_records = []\<rparr>"

subsection \<open>The functions of the module\<close>

definition parse_time_to_seconds ::
  "string \<Rightarrow> module_state \<Rightarrow> (error + int) \<times> module_state" where
  "parse_time_to_seconds time_str \<sigma> =
     (case unpack_hms (py_split time_str CHR '':'') of
        Inl e \<Rightarrow> (Inl e, \<sigma>)
      | Inr (h, m, s) \<Rightarrow> (Inr (h * 3600 + m * 60 + s), \<sigma>))"

text \<open>
  The downloader object: only its \<^verbatim>\<open>params\<close> dict is read. Its two entries are typed
  as the \<^verbatim>\<open>str\<close> argument of \<open>parse_time_to_seconds\<close>. \<^verbatim>\<open>params.get(k)\<close> is the
  lookup \<open>params ydl k\<close>, and \<^verbatim>\<open>not v\<close> holds for \<open>None\<close> and for the empty string;
  past that test both values are strings, so \<open>the\<close> is applied to \<open>Some\<close> only.
\<close>

record YoutubeDL =
  params :: "string \<rightharpoonup> string"

definition py_not :: "string option \<Rightarrow> bool" where
  "py_not v = (case v of None \<Rightarrow> True | Some s \<Rightarrow> s = [])"

definition download_ranges_callback ::
  "'i \<Rightarrow> YoutubeDL \<Rightarrow> module_state \<Rightarrow> (error + (string \<rightharpoonup> int) list) \<times> module_state" where
  "download_ranges_callback info_dict ydl \<sigma> =
     (let start_time = params ydl ''start_time'';
          end_time = params ydl ''end_time''
      in if py_not start_time \<or> py_not end_time
         then (Inl (ValueError MustBeProvided), \<sigma>)
         else
           (case parse_time_to_seconds (the start_time) \<sigma> of
              (Inl e, \<sigma>1) \<Rightarrow> (Inl e, \<sigma>1)
            | (Inr start_seconds, \<sigma>1) \<Rightarrow>
           (case parse_time_to_seconds (the end_time) \<sigma>1 of
              (Inl e, \<sigma>2) \<Rightarrow> (Inl e, \<sigma>2)
            | (Inr end_seconds, \<sigma>2) \<Rightarrow>
                (Inr [[''start_time'' \<mapsto> start_seconds, ''end_time'' \<mapsto> end_seconds]], \<sigma>2))))"

text \<open>The progress event is a dict; both of its entries read here are strings.\<close>

definition my_progress_hook ::
  "(string \<rightharpoonup> string) \<Rightarrow> module_state \<Rightarrow> (error + unit) \<times> module_state" where
  "my_progress_hook d \<sigma> =
     (case d ''status'' of
        None \<Rightarrow> (Inl (KeyError ''status''), \<sigma>)
      | Some status \<Rightarrow>
          if status = ''finished'' then
            (case d ''filename'' of
               None \<Rightarrow> (Inl (KeyError ''filename''), \<sigma>)
             | Some filename \<Rightarrow>
                 (Inr (),
                  \<sigma>\<lparr>downloaded_file_path_global := Some filename,
                    log_records := log_records \<sigma> @
                      [''Download finished. Final filename captured by hook: '' @ filename]\<rparr>))
          else (Inr (), \<sigma>))"

definition get_downloaded_filepath ::
  "module_state \<Rightarrow> (error + string option) \<times> module_state" where
  "get_downloaded_filepath \<sigma> = (Inr (downloaded_file_path_global \<sigma>), \<sigma>)"

text \<open>
  The downloader calls the hook once per event. A call that raises leaves the
  module variable as it was, and later calls still see it, so the state after a
  sequence of events is the state threaded through every call.
\<close>

fun progress_hooks :: "(string \<rightharpoonup> string) list \<Rightarrow> module_state \<Rightarrow> module_state" where
  "progress_hooks [] \<sigma> = \<sigma>"
| "progress_hooks (d # ds) \<sigma> = progress_hooks ds (snd (my_progress_hook d \<sigma>))"

subsection \<open>The vocabulary of the specification\<close>

text \<open>
  The specification names two kinds of failure. Both are \<^verbatim>\<open>ValueError\<close> in the code:
  its FormatError is the one raised by \<^verbatim>\<open>int\<close> or by the unpacking, its
  MissingParameterError the one raised by the explicit \<^verbatim>\<open>raise\<close>.
\<close>

fun FormatError :: "error \<Rightarrow> bool" where
  "FormatError (ValueError (InvalidLiteral _)) = True"
| "FormatError (ValueError (NotEnoughValues _ _)) = True"
| "FormatError (ValueError (TooManyValues _)) = True"
| "FormatError _ = False"

definition MissingParameterError :: "error \<Rightarrow> bool" where
  "MissingParameterError e = (e = ValueError MustBeProvided)"

text \<open>
  The events of a sequence whose status equals "finished", in order, and the
  filename reported by the last of them (\<open>None\<close> when there is none).
\<close>

definition finished_events :: "(string \<rightharpoonup> string) list \<Rightarrow> (string \<rightharpoonup> string) list" where
  "finished_events ds = filter (\<lambda>d. d ''status'' = Some ''finished'') ds"

definition last_finished_filename :: "(string \<rightharpoonup> string) list \<Rightarrow> string option" where
  "last_finished_filename ds =
     (if finished_events ds = [] then None else last (finished_events ds) ''filename'')"

section \<open>Properties\<close>

subsection \<open>Evaluation and the built-ins\<close>

text \<open>The definitions that evaluate a parse on a concrete text.\<close>

lemmas eval_defs =
  parse_time_to_seconds_def unpack_hms_def py_int_def py_strip_def py_isspace_def
  py_isdigit_def digit_val_def

text \<open>
  \<open>py_split\<close> is the inverse of joining with the separator: the fields, each
  preceded by the separator, concatenate to the separator followed by the text, and
  no field holds the separator.
\<close>

lemma py_split_nonempty: "py_split s sep \<noteq> []"
  by (cases s) auto

lemma py_split_join: "concat (map (\<lambda>f. sep # f) (py_split s sep)) = sep # s"
proof (induction s)
  case Nil
  then show ?case by simp
next
  case (Cons c cs)
  obtain g gs where split: "py_split cs sep = g # gs"
    using py_split_nonempty [of cs sep] by (auto simp: neq_Nil_conv)
  with Cons show ?case by auto
qed

lemma py_split_no_sep: "f \<in> set (py_split s sep) \<Longrightarrow> sep \<notin> set f"
proof (induction s arbitrary: f)
  case Nil
  then show ?case by simp
next
  case (Cons c cs)
  obtain g gs where split: "py_split cs sep = g # gs"
    using py_split_nonempty [of cs sep] by (auto simp: neq_Nil_conv)
  show ?case
  proof (cases "c = sep")
    case True
    with Cons show ?thesis by auto
  next
    case False
    with Cons.prems split have "f = c # g \<or> f \<in> set gs" by auto
    with Cons.IH split False show ?thesis by auto
  qed
qed

subsection \<open>Parsing a timecode\<close>

lemma unpack_hms_Inr_iff:
  "unpack_hms fs = Inr (h, m, s) \<longleftrightarrow>
     (\<exists>a b c. fs = [a, b, c] \<and> py_int a = Some h \<and> py_int b = Some m \<and> py_int c = Some s)"
  by (auto simp: unpack_hms_def split: list.splits option.splits)

lemma unpack_hms_Inl_FormatError: "unpack_hms fs = Inl e \<Longrightarrow> FormatError e"
  by (auto simp: unpack_hms_def split: list.splits option.splits)

lemma parse_state: "snd (parse_time_to_seconds time_str \<sigma>) = \<sigma>"
  by (simp add: parse_time_to_seconds_def split: sum.splits prod.splits)

lemma parse_Inr_iff:
  "fst (parse_time_to_seconds time_str \<sigma>) = Inr n \<longleftrightarrow>
     (\<exists>a b c h m s. py_split time_str CHR '':'' = [a, b, c] \<and> py_int a = Some h \<and>
        py_int b = Some m \<and> py_int c = Some s \<and> n = h * 3600 + m * 60 + s)"
proof (cases "unpack_hms (py_split time_str CHR '':'')")
  case (Inl e)
  then have "fst (parse_time_to_seconds time_str \<sigma>) = Inl e"
    by (simp add: parse_time_to_seconds_def)
  moreover have "\<not> (\<exists>a b c h m s. py_split time_str CHR '':'' = [a, b, c] \<and> py_int a = Some h \<and>
        py_int b = Some m \<and> py_int c = Some s \<and> n = h * 3600 + m * 60 + s)"
    using Inl unpack_hms_Inr_iff [of "py_split time_str CHR '':''"] by fastforce
  ultimately show ?thesis by simp
next
  case (Inr t)
  obtain h m s where t: "t = (h, m, s)" by (cases t) auto
  with Inr have "fst (parse_time_to_seconds time_str \<sigma>) = Inr (h * 3600 + m * 60 + s)"
    by (simp add: parse_time_to_seconds_def)
  moreover from Inr t obtain a b c where "py_split time_str CHR '':'' = [a, b, c]"
    "py_int a = Some h" "py_int b = Some m" "py_int c = Some s"
    using unpack_hms_Inr_iff by blast
  ultimately show ?thesis by auto
qed

lemma parse_Inl_FormatError:
  "fst (parse_time_to_seconds time_str \<sigma>) = Inl e \<Longrightarrow> FormatError e"
  by (auto simp: parse_time_to_seconds_def split: sum.splits prod.splits
      dest: unpack_hms_Inl_FormatError)

lemma seconds_nonneg: "0 \<le> h \<Longrightarrow> 0 \<le> m \<Longrightarrow> 0 \<le> s \<Longrightarrow> (0::int) \<le> h * 3600 + m * 60 + s"
  by simp

subsection \<open>The range callback\<close>

lemma ranges_missing:
  "py_not (params ydl ''start_time'') \<or> py_not (params ydl ''end_time'') \<Longrightarrow>
   download_ranges_callback info_dict ydl \<sigma> = (Inl (ValueError MustBeProvided), \<sigma>)"
  by (simp add: download_ranges_callback_def Let_def)

lemma ranges_present:
  assumes "\<not> py_not (params ydl ''start_time'')" "\<not> py_not (params ydl ''end_time'')"
  shows "download_ranges_callback info_dict ydl \<sigma> =
     (case fst (parse_time_to_seconds (the (params ydl ''start_time'')) \<sigma>) of
        Inl e \<Rightarrow> (Inl e, \<sigma>)
      | Inr a \<Rightarrow>
          (case fst (parse_time_to_seconds (the (params ydl ''end_time'')) \<sigma>) of
             Inl e \<Rightarrow> (Inl e, \<sigma>)
           | Inr b \<Rightarrow> (Inr [[''start_time'' \<mapsto> a, ''end_time'' \<mapsto> b]], \<sigma>)))"
proof -
  have p: "parse_time_to_seconds t \<sigma> = (fst (parse_time_to_seconds t \<sigma>), \<sigma>)" for t
    using parse_state [of t \<sigma>] by (metis prod.collapse)
  obtain r1 where r1: "parse_time_to_seconds (the (params ydl ''start_time'')) \<sigma> = (r1, \<sigma>)"
    using p by blast
  obtain r2 where r2: "parse_time_to_seconds (the (params ydl ''end_time'')) \<sigma> = (r2, \<sigma>)"
    using p by blast
  show ?thesis
    using assms r1 r2
    by (simp add: download_ranges_callback_def Let_def split: sum.splits)
qed

lemma py_not_iff: "py_not v \<longleftrightarrow> v = None \<or> v = Some []"
  by (simp add: py_not_def split: option.splits)

lemma ranges_state: "snd (download_ranges_callback info_dict ydl \<sigma>) = \<sigma>"
proof (cases "py_not (params ydl ''start_time'') \<or> py_not (params ydl ''end_time'')")
  case True
  then show ?thesis by (simp add: ranges_missing)
next
  case False
  then have "\<not> py_not (params ydl ''start_time'')" "\<not> py_not (params ydl ''end_time'')"
    by simp_all
  from ranges_present [OF this, of info_dict \<sigma>] show ?thesis
    by (simp split: sum.splits)
qed

lemma ranges_Inr:
  assumes "fst (download_ranges_callback info_dict ydl \<sigma>) = Inr rs"
  shows "\<exists>st en a b. params ydl ''start_time'' = Some st \<and> params ydl ''end_time'' = Some en \<and>
           fst (parse_time_to_seconds st \<sigma>) = Inr a \<and> fst (parse_time_to_seconds en \<sigma>) = Inr b \<and>
           rs = [[''start_time'' \<mapsto> a, ''end_time'' \<mapsto> b]]"
proof (cases "py_not (params ydl ''start_time'') \<or> py_not (params ydl ''end_time'')")
  case True
  from ranges_missing [OF True, of info_dict \<sigma>] assms show ?thesis by simp
next
  case False
  then have present: "\<not> py_not (params ydl ''start_time'')" "\<not> py_not (params ydl ''end_time'')"
    by simp_all
  then obtain st en where some: "params ydl ''start_time'' = Some st" "params ydl ''end_time'' = Some en"
    by (auto simp: py_not_def split: option.splits)
  from ranges_present [OF present, of info_dict \<sigma>] assms some show ?thesis
    by (auto split: sum.splits)
qed

subsection \<open>The progress hook\<close>

lemma hook_not_finished:
  "d ''status'' = Some st \<Longrightarrow> st \<noteq> ''finished'' \<Longrightarrow> my_progress_hook d \<sigma> = (Inr (), \<sigma>)"
  by (simp add: my_progress_hook_def)

lemma hook_path:
  "downloaded_file_path_global (snd (my_progress_hook d \<sigma>)) =
     (if d ''status'' = Some ''finished'' \<and> d ''filename'' \<noteq> None then d ''filename''
      else downloaded_file_path_global \<sigma>)"
  by (auto simp: my_progress_hook_def split: option.splits)

lemma progress_hooks_path:
  assumes "\<forall>d\<in>set ds. d ''status'' = Some ''finished'' \<longrightarrow> d ''filename'' \<noteq> None"
  shows "downloaded_file_path_global (progress_hooks ds \<sigma>) =
     (if finished_events ds = [] then downloaded_file_path_global \<sigma>
      else last (finished_events ds) ''filename'')"
  using assms
proof (induction ds arbitrary: \<sigma>)
  case Nil
  then show ?case by (simp add: finished_events_def)
next
  case (Cons d ds)
  then show ?case
    by (simp add: hook_path finished_events_def)
qed

lemma hook_unchanged:
  "d ''status'' \<noteq> Some ''finished'' \<Longrightarrow> snd (my_progress_hook d \<sigma>) = \<sigma>"
  by (auto simp: my_progress_hook_def split: option.splits)

lemma progress_hooks_unchanged:
  "\<forall>d\<in>set ds. d ''status'' \<noteq> Some ''finished'' \<Longrightarrow> progress_hooks ds \<sigma> = \<sigma>"
  by (induction ds arbitrary: \<sigma>) (simp_all add: hook_unchanged)

subsection \<open>The claims\<close>

text \<open>
  Claim C1. After any finite sequence of progress events, each of whose "finished"
  events reports a filename, \<open>get_downloaded_filepath\<close> returns the filename of the
  last event whose status equals "finished": from the initial state that is \<open>None\<close>
  when no event is "finished", and from any state a "finished" event overwrites
  what was stored.
\<close>

theorem progress_hooks_last_finished:
  assumes "\<forall>d\<in>set ds. d ''status'' = Some ''finished'' \<longrightarrow> d ''filename'' \<noteq> None"
  shows "fst (get_downloaded_filepath (progress_hooks ds initial_state)) =
           Inr (last_finished_filename ds)
       \<and> fst (get_downloaded_filepath (progress_hooks ds \<sigma>)) =
           Inr (if finished_events ds = [] then downloaded_file_path_global \<sigma>
                else last (finished_events ds) ''filename'')"
  using progress_hooks_path [OF assms]
  by (simp add: get_downloaded_filepath_def last_finished_filename_def initial_state_def)

theorem progress_hooks_last_finished_witness:
  "fst (get_downloaded_filepath (progress_hooks
      [[''status'' \<mapsto> ''downloading''],
       [''status'' \<mapsto> ''finished'', ''filename'' \<mapsto> ''a.mp4''],
       [''status'' \<mapsto> ''finished'', ''filename'' \<mapsto> ''out.mp4''],
       [''status'' \<mapsto> ''downloading'', ''filename'' \<mapsto> ''b.part'']] initial_state)) =
   Inr (Some ''out.mp4'')"
  using progress_hooks_last_finished
    [where ds = "[[''status'' \<mapsto> ''downloading''],
       [''status'' \<mapsto> ''finished'', ''filename'' \<mapsto> ''a.mp4''],
       [''status'' \<mapsto> ''finished'', ''filename'' \<mapsto> ''out.mp4''],
       [''status'' \<mapsto> ''downloading'', ''filename'' \<mapsto> ''b.part'']]"]
  by (simp add: last_finished_filename_def finished_events_def)

text \<open>
  Claim C2. When \<^verbatim>\<open>start_time\<close> and \<^verbatim>\<open>end_time\<close> are both present and non-empty and
  both parse, \<open>download_ranges_callback\<close> returns a list of one range, whose start is
  the parsed start and whose end is the parsed end (the dict keys of the code are
  \<^verbatim>\<open>start_time\<close> and \<^verbatim>\<open>end_time\<close>). The instance below is the one of the
  specification: "00:00:10" to "00:01:00" gives the range from 10 to 60.
\<close>

theorem download_ranges_callback_single_range:
  assumes "params ydl ''start_time'' = Some st" and "st \<noteq> []"
    and "params ydl ''end_time'' = Some en" and "en \<noteq> []"
    and "fst (parse_time_to_seconds st \<sigma>) = Inr a"
    and "fst (parse_time_to_seconds en \<sigma>) = Inr b"
  shows "download_ranges_callback info_dict ydl \<sigma> =
           (Inr [[''start_time'' \<mapsto> a, ''end_time'' \<mapsto> b]], \<sigma>)"
proof -
  from assms have "\<not> py_not (params ydl ''start_time'')" "\<not> py_not (params ydl ''end_time'')"
    by (simp_all add: py_not_def)
  from ranges_present [OF this, of info_dict \<sigma>] assms show ?thesis by simp
qed

theorem download_ranges_callback_single_range_witness:
  "download_ranges_callback ()
     \<lparr>params = [''start_time'' \<mapsto> ''00:00:10'', ''end_time'' \<mapsto> ''00:01:00'']\<rparr> initial_state =
   (Inr [[''start_time'' \<mapsto> 10, ''end_time'' \<mapsto> 60]], initial_state)"
  by (rule download_ranges_callback_single_range
        [where st = "''00:00:10''" and en = "''00:01:00''"])
     (simp_all add: eval_defs)

text \<open>
  Claim C3. When the text splits on \<open>:\<close> into exactly three fields that \<^verbatim>\<open>int\<close>
  accepts, with values \<open>h\<close>, \<open>m\<close> and \<open>s\<close>, \<open>parse_time_to_seconds\<close> returns
  \<open>h * 3600 + m * 60 + s\<close>; "01:02:03" gives 3723 and "00:00:00" gives 0.
\<close>

theorem parse_time_to_seconds_value:
  "(py_split time_str CHR '':'' = [a, b, c] \<and> py_int a = Some h \<and> py_int b = Some m \<and>
      py_int c = Some s \<longrightarrow>
      parse_time_to_seconds time_str \<sigma> = (Inr (h * 3600 + m * 60 + s), \<sigma>))
   \<and> parse_time_to_seconds ''01:02:03'' \<sigma> = (Inr 3723, \<sigma>)
   \<and> parse_time_to_seconds ''00:00:00'' \<sigma> = (Inr 0, \<sigma>)"
proof (intro conjI impI)
  assume "py_split time_str CHR '':'' = [a, b, c] \<and> py_int a = Some h \<and> py_int b = Some m \<and>
      py_int c = Some s"
  then have "unpack_hms (py_split time_str CHR '':'') = Inr (h, m, s)"
    by (simp add: unpack_hms_Inr_iff)
  then show "parse_time_to_seconds time_str \<sigma> = (Inr (h * 3600 + m * 60 + s), \<sigma>)"
    by (simp add: parse_time_to_seconds_def)
next
  show "parse_time_to_seconds ''01:02:03'' \<sigma> = (Inr 3723, \<sigma>)"
    by (simp add: eval_defs)
next
  show "parse_time_to_seconds ''00:00:00'' \<sigma> = (Inr 0, \<sigma>)"
    by (simp add: eval_defs)
qed

theorem parse_time_to_seconds_value_witness:
  "py_split ''10:20:30'' CHR '':'' = [''10'', ''20'', ''30''] \<and> py_int ''10'' = Some 10 \<and>
   py_int ''20'' = Some 20 \<and> py_int ''30'' = Some 30 \<and>
   parse_time_to_seconds ''10:20:30'' initial_state = (Inr 37230, initial_state)"
  using parse_time_to_seconds_value
    [where time_str = "''10:20:30''" and a = "''10''" and b = "''20''" and c = "''30''"
       and h = 10 and m = 20 and s = 30 and \<sigma> = initial_state]
  by (simp add: py_int_def py_strip_def py_isspace_def py_isdigit_def digit_val_def)

text \<open>
  Claim C4. \<open>download_ranges_callback\<close> fails with the specification's
  MissingParameterError exactly when \<^verbatim>\<open>start_time\<close> or \<^verbatim>\<open>end_time\<close> is absent or
  empty; then nothing is parsed (the other value may be any text), the error is the
  result of the call, and the module state is as before.
\<close>

theorem download_ranges_callback_missing:
  "((\<exists>e. fst (download_ranges_callback info_dict ydl \<sigma>) = Inl e \<and> MissingParameterError e) \<longleftrightarrow>
      params ydl ''start_time'' = None \<or> params ydl ''start_time'' = Some [] \<or>
      params ydl ''end_time'' = None \<or> params ydl ''end_time'' = Some [])
   \<and> (params ydl ''start_time'' = None \<or> params ydl ''start_time'' = Some [] \<or>
       params ydl ''end_time'' = None \<or> params ydl ''end_time'' = Some [] \<longrightarrow>
       download_ranges_callback info_dict ydl \<sigma> = (Inl (ValueError MustBeProvided), \<sigma>))"
proof -
  let ?missing = "params ydl ''start_time'' = None \<or> params ydl ''start_time'' = Some [] \<or>
      params ydl ''end_time'' = None \<or> params ydl ''end_time'' = Some []"
  have missing: "?missing \<longleftrightarrow> py_not (params ydl ''start_time'') \<or> py_not (params ydl ''end_time'')"
    by (auto simp: py_not_iff)
  have raised: "download_ranges_callback info_dict ydl \<sigma> = (Inl (ValueError MustBeProvided), \<sigma>)"
    if ?missing
  proof -
    from that missing
    have "py_not (params ydl ''start_time'') \<or> py_not (params ydl ''end_time'')" by simp
    then show ?thesis by (rule ranges_missing)
  qed
  have other: "fst (download_ranges_callback info_dict ydl \<sigma>) \<noteq> Inl (ValueError MustBeProvided)"
    if "\<not> ?missing"
  proof
    assume raise: "fst (download_ranges_callback info_dict ydl \<sigma>) = Inl (ValueError MustBeProvided)"
    from that missing
    have present: "\<not> py_not (params ydl ''start_time'')" "\<not> py_not (params ydl ''end_time'')"
      by blast+
    from raise ranges_present [OF present, of info_dict \<sigma>]
    have "fst (parse_time_to_seconds (the (params ydl ''start_time'')) \<sigma>) = Inl (ValueError MustBeProvided)
        \<or> fst (parse_time_to_seconds (the (params ydl ''end_time'')) \<sigma>) = Inl (ValueError MustBeProvided)"
      by (auto split: sum.splits)
    then have "FormatError (ValueError MustBeProvided)"
      using parse_Inl_FormatError by blast
    then show False by simp
  qed
  show ?thesis
  proof (cases ?missing)
    case True
    from raised [OF True] True show ?thesis
      by (simp add: MissingParameterError_def)
  next
    case False
    from other [OF False] False show ?thesis
      by (auto simp: MissingParameterError_def)
  qed
qed

theorem download_ranges_callback_missing_witness:
  "download_ranges_callback () \<lparr>params = Map.empty\<rparr> initial_state =
     (Inl (ValueError MustBeProvided), initial_state)
   \<and> download_ranges_callback () \<lparr>params = [''start_time'' \<mapsto> ''bad'']\<rparr> initial_state =
     (Inl (ValueError MustBeProvided), initial_state)"
  using download_ranges_callback_missing
      [where ydl = "\<lparr>params = Map.empty\<rparr>" and \<sigma> = initial_state and info_dict = "()"]
    download_ranges_callback_missing
      [where ydl = "\<lparr>params = [''start_time'' \<mapsto> ''bad'']\<rparr>" and \<sigma> = initial_state
         and info_dict = "()"]
  by simp

text \<open>
  Claim C5. \<open>parse_time_to_seconds\<close> fails exactly when the text does not split on
  \<open>:\<close> into exactly three fields that \<^verbatim>\<open>int\<close> accepts, and every failure is the
  specification's FormatError. \<open>download_ranges_callback\<close> hands the failure of
  either of its two parses to its caller unchanged. "bad:input" fails, at its first
  field.
\<close>

theorem parse_time_to_seconds_format_error:
  "(isl (fst (parse_time_to_seconds time_str \<sigma>)) \<longleftrightarrow>
      \<not> (\<exists>a b c. py_split time_str CHR '':'' = [a, b, c] \<and> py_int a \<noteq> None \<and>
            py_int b \<noteq> None \<and> py_int c \<noteq> None))
   \<and> (\<forall>e. fst (parse_time_to_seconds time_str \<sigma>) = Inl e \<longrightarrow> FormatError e)
   \<and> (params ydl ''start_time'' = Some st \<and> st \<noteq> [] \<and> params ydl ''end_time'' = Some en \<and>
       en \<noteq> [] \<and> fst (parse_time_to_seconds st \<sigma>) = Inl e1 \<longrightarrow>
         download_ranges_callback info_dict ydl \<sigma> = (Inl e1, \<sigma>))
   \<and> (params ydl ''start_time'' = Some st \<and> st \<noteq> [] \<and> params ydl ''end_time'' = Some en \<and>
       en \<noteq> [] \<and> fst (parse_time_to_seconds st \<sigma>) = Inr n \<and>
       fst (parse_time_to_seconds en \<sigma>) = Inl e2 \<longrightarrow>
         download_ranges_callback info_dict ydl \<sigma> = (Inl e2, \<sigma>))
   \<and> parse_time_to_seconds ''bad:input'' \<sigma> = (Inl (ValueError (InvalidLiteral ''bad'')), \<sigma>)"
proof (intro conjI allI impI)
  show "isl (fst (parse_time_to_seconds time_str \<sigma>)) \<longleftrightarrow>
      \<not> (\<exists>a b c. py_split time_str CHR '':'' = [a, b, c] \<and> py_int a \<noteq> None \<and>
            py_int b \<noteq> None \<and> py_int c \<noteq> None)"
  proof -
    have "\<not> isl (fst (parse_time_to_seconds time_str \<sigma>)) \<longleftrightarrow>
        (\<exists>n. fst (parse_time_to_seconds time_str \<sigma>) = Inr n)"
      by (cases "fst (parse_time_to_seconds time_str \<sigma>)") simp_all
    also have "\<dots> \<longleftrightarrow> (\<exists>a b c. py_split time_str CHR '':'' = [a, b, c] \<and> py_int a \<noteq> None \<and>
            py_int b \<noteq> None \<and> py_int c \<noteq> None)"
      unfolding parse_Inr_iff by auto
    finally show ?thesis by blast
  qed
next
  fix e assume "fst (parse_time_to_seconds time_str \<sigma>) = Inl e"
  then show "FormatError e" by (rule parse_Inl_FormatError)
next
  assume h: "params ydl ''start_time'' = Some st \<and> st \<noteq> [] \<and> params ydl ''end_time'' = Some en \<and>
       en \<noteq> [] \<and> fst (parse_time_to_seconds st \<sigma>) = Inl e1"
  then have "\<not> py_not (params ydl ''start_time'')" "\<not> py_not (params ydl ''end_time'')"
    by (simp_all add: py_not_def)
  from ranges_present [OF this, of info_dict \<sigma>] h
  show "download_ranges_callback info_dict ydl \<sigma> = (Inl e1, \<sigma>)" by simp
next
  assume h: "params ydl ''start_time'' = Some st \<and> st \<noteq> [] \<and> params ydl ''end_time'' = Some en \<and>
       en \<noteq> [] \<and> fst (parse_time_to_seconds st \<sigma>) = Inr n \<and>
       fst (parse_time_to_seconds en \<sigma>) = Inl e2"
  then have "\<not> py_not (params ydl ''start_time'')" "\<not> py_not (params ydl ''end_time'')"
    by (simp_all add: py_not_def)
  from ranges_present [OF this, of info_dict \<sigma>] h
  show "download_ranges_callback info_dict ydl \<sigma> = (Inl e2, \<sigma>)" by simp
next
  show "parse_time_to_seconds ''bad:input'' \<sigma> = (Inl (ValueError (InvalidLiteral ''bad'')), \<sigma>)"
    by (simp add: eval_defs)
qed

theorem parse_time_to_seconds_format_error_witness:
  "isl (fst (parse_time_to_seconds ''1:2'' initial_state))
   \<and> download_ranges_callback ()
       \<lparr>params = [''start_time'' \<mapsto> ''1:2'', ''end_time'' \<mapsto> ''0:0:9'']\<rparr> initial_state =
     (Inl (ValueError (NotEnoughValues 3 2)), initial_state)
   \<and> download_ranges_callback ()
       \<lparr>params = [''start_time'' \<mapsto> ''0:0:9'', ''end_time'' \<mapsto> ''0:0:x'']\<rparr> initial_state =
     (Inl (ValueError (InvalidLiteral ''x'')), initial_state)"
  using parse_time_to_seconds_format_error
      [where time_str = "''1:2''" and \<sigma> = initial_state and info_dict = "()"
         and ydl = "\<lparr>params = [''start_time'' \<mapsto> ''1:2'', ''end_time'' \<mapsto> ''0:0:9'']\<rparr>"
         and st = "''1:2''" and en = "''0:0:9''" and ?e1.0 = "ValueError (NotEnoughValues 3 2)"]
    parse_time_to_seconds_format_error
      [where time_str = "''1:2''" and \<sigma> = initial_state and info_dict = "()"
         and ydl = "\<lparr>params = [''start_time'' \<mapsto> ''0:0:9'', ''end_time'' \<mapsto> ''0:0:x'']\<rparr>"
         and st = "''0:0:9''" and en = "''0:0:x''" and n = 9
         and ?e2.0 = "ValueError (InvalidLiteral ''x'')"]
  by (simp add: eval_defs)

text \<open>
  Claim C6. The module variable starts as \<open>None\<close>; \<open>get_downloaded_filepath\<close> always
  returns its current value, never an error, and leaves the state as it is; after
  any sequence of events none of which is "finished" it still returns \<open>None\<close>.
\<close>

theorem get_downloaded_filepath_current:
  "downloaded_file_path_global initial_state = None
   \<and> get_downloaded_filepath \<sigma> = (Inr (downloaded_file_path_global \<sigma>), \<sigma>)
   \<and> ((\<forall>d\<in>set ds. d ''status'' \<noteq> Some ''finished'') \<longrightarrow>
        get_downloaded_filepath (progress_hooks ds initial_state) = (Inr None, initial_state))"
  by (simp add: progress_hooks_unchanged get_downloaded_filepath_def initial_state_def)

theorem get_downloaded_filepath_current_witness:
  "get_downloaded_filepath (progress_hooks
      [[''status'' \<mapsto> ''downloading''], [''status'' \<mapsto> ''error'']] initial_state) =
   (Inr None, initial_state)"
proof -
  have "\<forall>d\<in>set [[''status'' \<mapsto> ''downloading''], [''status'' \<mapsto> ''error'']].
          d ''status'' \<noteq> Some ''finished''"
    by simp
  with get_downloaded_filepath_current
    [where ds = "[[''status'' \<mapsto> ''downloading''], [''status'' \<mapsto> ''error'']]"
       and \<sigma> = initial_state]
  show ?thesis by blast
qed

text \<open>
  Claim C7. An event whose status is present and differs from "finished" leaves the
  whole module state unchanged, and the hook returns normally.
\<close>

theorem my_progress_hook_frame:
  assumes "d ''status'' = Some status" and "status \<noteq> ''finished''"
  shows "my_progress_hook d \<sigma> = (Inr (), \<sigma>)"
  using assms by (rule hook_not_finished)

theorem my_progress_hook_frame_witness:
  "my_progress_hook [''status'' \<mapsto> ''downloading'', ''filename'' \<mapsto> ''out.mp4.part'']
      \<lparr>downloaded_file_path_global = Some ''old.mp4'', log_records = []\<rparr> =
   (Inr (), \<lparr>downloaded_file_path_global = Some ''old.mp4'', log_records = []\<rparr>)"
  by (rule my_progress_hook_frame [where status = "''downloading''"]) simp_all

text \<open>
  Claim C8, as stated, fails: \<^verbatim>\<open>int\<close> accepts a sign, so "-1:00:00" is accepted,
  its first field is \<open>- 1\<close>, and the range built from it starts at \<open>- 3600\<close>.
\<close>

theorem negative_timecode_counterexample:
  "py_split ''-1:00:00'' CHR '':'' = [''-1'', ''00'', ''00''] \<and> py_int ''-1'' = Some (- 1)
   \<and> parse_time_to_seconds ''-1:00:00'' initial_state = (Inr (- 3600), initial_state)
   \<and> download_ranges_callback ()
       \<lparr>params = [''start_time'' \<mapsto> ''-1:00:00'', ''end_time'' \<mapsto> ''00:00:10'']\<rparr> initial_state =
     (Inr [[''start_time'' \<mapsto> - 3600, ''end_time'' \<mapsto> 10]], initial_state)"
  by (simp add: download_ranges_callback_def py_not_def eval_defs)

text \<open>
  Claim C8, amended. Every text accepted by \<open>parse_time_to_seconds\<close> has exactly
  three fields, each accepted by \<^verbatim>\<open>int\<close> as an integer of either sign, and the
  result is built from them; when the three fields are non-negative the text is
  accepted with a non-negative result; every range built by
  \<open>download_ranges_callback\<close> holds the parsed \<^verbatim>\<open>start_time\<close> and \<^verbatim>\<open>end_time\<close>.
\<close>

theorem timecode_fields_integers:
  "(fst (parse_time_to_seconds time_str \<sigma>) = Inr n \<longrightarrow>
      (\<exists>a b c h m s. py_split time_str CHR '':'' = [a, b, c] \<and> py_int a = Some h \<and>
         py_int b = Some m \<and> py_int c = Some s \<and> n = h * 3600 + m * 60 + s))
   \<and> (py_split time_str CHR '':'' = [a, b, c] \<and> py_int a = Some h \<and> py_int b = Some m \<and>
       py_int c = Some s \<and> 0 \<le> h \<and> 0 \<le> m \<and> 0 \<le> s \<longrightarrow>
      (\<exists>k. fst (parse_time_to_seconds time_str \<sigma>) = Inr k \<and> 0 \<le> k))
   \<and> (fst (download_ranges_callback info_dict ydl \<sigma>) = Inr rs \<longrightarrow>
      (\<exists>st en x y. params ydl ''start_time'' = Some st \<and> params ydl ''end_time'' = Some en \<and>
         fst (parse_time_to_seconds st \<sigma>) = Inr x \<and> fst (parse_time_to_seconds en \<sigma>) = Inr y \<and>
         rs = [[''start_time'' \<mapsto> x, ''end_time'' \<mapsto> y]]))"
proof (intro conjI impI)
  assume "fst (parse_time_to_seconds time_str \<sigma>) = Inr n"
  then show "\<exists>a b c h m s. py_split time_str CHR '':'' = [a, b, c] \<and> py_int a = Some h \<and>
         py_int b = Some m \<and> py_int c = Some s \<and> n = h * 3600 + m * 60 + s"
    unfolding parse_Inr_iff .
next
  assume f: "py_split time_str CHR '':'' = [a, b, c] \<and> py_int a = Some h \<and> py_int b = Some m \<and>
       py_int c = Some s \<and> 0 \<le> h \<and> 0 \<le> m \<and> 0 \<le> s"
  then have "fst (parse_time_to_seconds time_str \<sigma>) = Inr (h * 3600 + m * 60 + s)"
    unfolding parse_Inr_iff by blast
  moreover from f have "0 \<le> h * 3600 + m * 60 + s"
    by (simp add: seconds_nonneg)
  ultimately show "\<exists>k. fst (parse_time_to_seconds time_str \<sigma>) = Inr k \<and> 0 \<le> k"
    by blast
next
  assume "fst (download_ranges_callback info_dict ydl \<sigma>) = Inr rs"
  then show "\<exists>st en x y. params ydl ''start_time'' = Some st \<and> params ydl ''end_time'' = Some en \<and>
         fst (parse_time_to_seconds st \<sigma>) = Inr x \<and> fst (parse_time_to_seconds en \<sigma>) = Inr y \<and>
         rs = [[''start_time'' \<mapsto> x, ''end_time'' \<mapsto> y]]"
    by (rule ranges_Inr)
qed

theorem timecode_fields_integers_witness:
  "py_split ''00:00:10'' CHR '':'' = [''00'', ''00'', ''10''] \<and> py_int ''00'' = Some 0 \<and>
   py_int ''10'' = Some 10 \<and>
   (\<exists>k. fst (parse_time_to_seconds ''00:00:10'' initial_state) = Inr k \<and> 0 \<le> k)"
  using timecode_fields_integers
    [where time_str = "''00:00:10''" and a = "''00''" and b = "''00''" and c = "''10''"
       and h = 0 and m = 0 and s = 10 and \<sigma> = initial_state and n = 10
       and info_dict = "()" and ydl = "\<lparr>params = Map.empty\<rparr>" and rs = "[]"]
  by (simp add: py_int_def py_strip_def py_isspace_def py_isdigit_def digit_val_def)

text \<open>
  Claim C9. The hook raises \<^verbatim>\<open>KeyError\<close> for every event without the key
  \<^verbatim>\<open>status\<close> and for every event whose status is "finished" and that has no
  \<^verbatim>\<open>filename\<close>, leaving the state unchanged; when \<^verbatim>\<open>status\<close> is present, and
  \<^verbatim>\<open>filename\<close> is too if the status is "finished", it returns normally.
\<close>

theorem my_progress_hook_key_errors:
  "(d ''status'' = None \<longrightarrow> my_progress_hook d \<sigma> = (Inl (KeyError ''status''), \<sigma>))
   \<and> (d ''status'' = Some ''finished'' \<and> d ''filename'' = None \<longrightarrow>
        my_progress_hook d \<sigma> = (Inl (KeyError ''filename''), \<sigma>))
   \<and> (d ''status'' \<noteq> None \<and> (d ''status'' = Some ''finished'' \<longrightarrow> d ''filename'' \<noteq> None) \<longrightarrow>
        fst (my_progress_hook d \<sigma>) = Inr ())"
  by (auto simp: my_progress_hook_def split: option.splits)

theorem my_progress_hook_key_errors_witness:
  "my_progress_hook Map.empty initial_state = (Inl (KeyError ''status''), initial_state)
   \<and> my_progress_hook [''status'' \<mapsto> ''finished''] initial_state =
       (Inl (KeyError ''filename''), initial_state)
   \<and> fst (my_progress_hook [''status'' \<mapsto> ''finished'', ''filename'' \<mapsto> ''out.mp4'']
        initial_state) = Inr ()
   \<and> fst (my_progress_hook [''status'' \<mapsto> ''downloading''] initial_state) = Inr ()"
  using my_progress_hook_key_errors [where d = Map.empty and \<sigma> = initial_state]
    my_progress_hook_key_errors [where d = "[''status'' \<mapsto> ''finished'']" and \<sigma> = initial_state]
    my_progress_hook_key_errors
      [where d = "[''status'' \<mapsto> ''finished'', ''filename'' \<mapsto> ''out.mp4'']"
         and \<sigma> = initial_state]
    my_progress_hook_key_errors [where d = "[''status'' \<mapsto> ''downloading'']" and \<sigma> = initial_state]
  by simp

text \<open>
  Claim C10. \<open>parse_time_to_seconds\<close> and \<open>download_ranges_callback\<close> return the
  module state they were given, whether they succeed or fail, so what
  \<open>get_downloaded_filepath\<close> returns is the same before and after the call.
\<close>

theorem range_functions_keep_state:
  "snd (parse_time_to_seconds time_str \<sigma>) = \<sigma>
   \<and> snd (download_ranges_callback info_dict ydl \<sigma>) = \<sigma>
   \<and> get_downloaded_filepath (snd (parse_time_to_seconds time_str \<sigma>)) = get_downloaded_filepath \<sigma>
   \<and> get_downloaded_filepath (snd (download_ranges_callback info_dict ydl \<sigma>)) =
       get_downloaded_filepath \<sigma>"
  by (simp add: parse_state ranges_state)

end
